theory Spec2Isabelle
  imports Main
begin

section \<open>Data model of the grid (src/src/InfiniteGrid.js, src/src/eventHandler.js)\<close>

text \<open>
  A DOM element is identified by \<open>eid\<close> (JavaScript compares elements by reference);
  \<open>tagName\<close> and the two inline style properties written by \<open>_insert\<close> are its
  only attributes the orchestrator reads or writes.
\<close>

record elem =
  eid :: nat
  tagName :: string
  style_position :: string
  style_top :: "int option"

text \<open>An item of the window: its element, its group key (\<open>None\<close> is \<open>undefined\<close>)
  and \<open>position.y\<close>.\<close>

record item =
  el :: elem
  groupKey :: "nat option"
  position_y :: int

record layoutManager =
  items :: "item list"
  cols :: "int list"

record grid_options =
  isEqualSize :: bool
  defaultGroupKey :: "nat option"
  count :: int
  threshold :: int

text \<open>The \<open>_status\<close> object.\<close>

record grid_status =
  status_isProcessing :: bool
  status_isRecycling :: bool
  prevScrollTop :: int
  topElement :: "elem option"
  bottomElement :: "elem option"
  clientHeight :: int

text \<open>The \<open>_timer\<close> object; a timer handle is modelled by whether the timer is armed.\<close>

record grid_timer =
  resize :: bool
  doubleCheck :: bool
  doubleCheckCount :: int

record layout_options =
  isAppend :: bool
  removedCount :: nat

text \<open>Events delivered through \<open>trigger\<close>, with their payloads.\<close>

record layoutComplete_payload =
  target :: "item list"
  payload_isAppend :: bool
  distance :: int
  croppedCount :: nat

datatype event =
    Append int
  | Prepend int
  | LayoutComplete layoutComplete_payload

text \<open>A layout callback handed to \<open>_waitResource\<close> and not yet run: the arguments
  of \<open>_onLayoutComplete\<close> (\<open>None\<close> for \<open>addItems\<close> is \<open>undefined\<close>).\<close>

record pending_layout =
  p_isRelayout :: bool
  p_addItems :: "item list option"
  p_options :: layout_options

text \<open>A child node of the container: an element, or character data between
  elements (text, which may be empty).\<close>

datatype node = Element elem | Text string

text \<open>
  The instance together with the part of the browser it acts on: the child nodes of
  the container \<open>el\<close>, the container's inline style (the \<open>height\<close> property and the
  remaining declarations of \<open>cssText\<close>), the scroll offset of the view, the events
  triggered so far and the scheduled layout callbacks.
\<close>

record grid =
  options :: grid_options
  status :: grid_status
  timer :: grid_timer
  layoutManager :: layoutManager
  childNodes :: "node list"
  style_height :: "int option"
  style_rest :: string
  viewScrollTop :: int
  events :: "event list"
  pending :: "pending_layout list"

datatype error = TypeError

text \<open>\<open>el.children\<close>: the child nodes that are elements.\<close>

fun elements_of :: "node list \<Rightarrow> elem list" where
  "elements_of [] = []"
| "elements_of (Element e # ns) = e # elements_of ns"
| "elements_of (Text s # ns) = elements_of ns"

definition children :: "grid \<Rightarrow> elem list" where
  "children g = elements_of (childNodes g)"

text \<open>
  The methods of \<open>LayoutManager\<close> (\<open>./LayoutManager\<close>) and the constants of
  \<open>./consts\<close> are imported by the sources but are not part of them; the orchestrator is
  modelled over any implementation of them.
\<close>

record collaborators =
  IS_IOS :: bool
  RETRY :: int
  getDelimiterIndex :: "layoutManager \<Rightarrow> bool \<Rightarrow> int \<Rightarrow> int"
  adjustItems :: "layoutManager \<Rightarrow> bool \<Rightarrow> int \<Rightarrow> item list \<times> layoutManager"
  itemize :: "elem list \<Rightarrow> nat option \<Rightarrow> item list"
  layoutItems :: "layoutManager \<Rightarrow> bool \<Rightarrow> item list option \<Rightarrow> layout_options \<Rightarrow> layoutManager"
  fit :: "layoutManager \<Rightarrow> int \<times> layoutManager"
  getTopItem :: "layoutManager \<Rightarrow> item option"
  getBottomItem :: "layoutManager \<Rightarrow> item option"
  getLogicalHeight :: "layoutManager \<Rightarrow> int"
  lmGetStatus :: "layoutManager \<Rightarrow> layoutManager"
  lmSetStatus :: "layoutManager \<Rightarrow> layoutManager \<Rightarrow> layoutManager"
  getBoundingClientRect :: "elem \<Rightarrow> int \<times> int"

section \<open>Insertion: \<open>_prepareElement\<close>, \<open>_adjustRange\<close>, \<open>layout\<close>, \<open>_insert\<close>\<close>

definition isProcessing :: "grid \<Rightarrow> bool" where
  "isProcessing g = status_isProcessing (status g)"

definition isRecycling :: "grid \<Rightarrow> bool" where
  "isRecycling g = (count (options g) > 0 \<and> status_isRecycling (status g))"

text \<open>\<open>RegExp.test\<close> for a pattern without metacharacters: the pattern occurs
  somewhere in the subject.\<close>

fun starts_with :: "string \<Rightarrow> string \<Rightarrow> bool" where
  "starts_with [] s = True"
| "starts_with (p # ps) [] = False"
| "starts_with (p # ps) (c # cs) = (p = c \<and> starts_with ps cs)"

fun occurs_in :: "string \<Rightarrow> string \<Rightarrow> bool" where
  "occurs_in p [] = (p = [])"
| "occurs_in p (c # cs) = (starts_with p (c # cs) \<or> occurs_in p cs)"

text \<open>\<open>/DIV|SPAN|LI/.test(tagName)\<close>\<close>

definition tag_test :: "string \<Rightarrow> bool" where
  "tag_test t = (occurs_in ''DIV'' t \<or> occurs_in ''SPAN'' t \<or> occurs_in ''LI'' t)"

text \<open>\<open>_prepareElement(paramElements)\<close>; \<open>paramElements\<close> is the array of elements
  that \<open>utils.$\<close> yields for the caller's argument.\<close>

definition prepareElement :: "grid \<Rightarrow> elem list \<Rightarrow> elem list \<times> grid" where
  "prepareElement g paramElements =
     (let elements = filter (\<lambda>v. tag_test (tagName v)) paramElements;
          g1 = g\<lparr>status := (status g)\<lparr>status_isProcessing := True\<rparr>\<rparr>;
          g2 = (if \<not> isRecycling g1
                then g1\<lparr>status := (status g1)\<lparr>status_isRecycling :=
                       (int (length (items (layoutManager g1))) + int (length elements)
                          \<ge> count (options g1))\<rparr>\<rparr>
                else g1)
      in (elements, g2))"

text \<open>\<open>Array.prototype.indexOf\<close> on elements: the first index holding the same node.\<close>

fun indexOf :: "elem list \<Rightarrow> elem \<Rightarrow> nat option" where
  "indexOf [] e = None"
| "indexOf (x # xs) e =
     (if eid x = eid e then Some 0
      else (case indexOf xs e of None \<Rightarrow> None | Some i \<Rightarrow> Some (Suc i)))"

text \<open>\<open>splice(idx, 1)\<close>\<close>

definition splice1 :: "nat \<Rightarrow> 'a list \<Rightarrow> 'a list" where
  "splice1 idx xs = take idx xs @ drop (Suc idx) xs"

text \<open>Whether a node is the element \<open>e\<close>.\<close>

fun is_element :: "elem \<Rightarrow> node \<Rightarrow> bool" where
  "is_element e (Element c) = (eid c = eid e)"
| "is_element e (Text s) = False"

definition removeChild :: "node list \<Rightarrow> elem \<Rightarrow> node list" where
  "removeChild ns e = filter (\<lambda>n. \<not> is_element e n) ns"

text \<open>
  The \<open>targets.forEach\<close> loop of \<open>_adjustRange\<close>. An evicted element that is not in
  \<open>elements\<close> is removed from its parent; elements live in the container or are
  detached, and \<open>v.el.parentNode.removeChild\<close> on a detached element raises a
  \<open>TypeError\<close> (\<open>parentNode\<close> is \<open>null\<close>). The result is the error raised, if any,
  with \<open>elements\<close> and the child nodes of the container as the loop leaves them.
\<close>

fun removeTargets :: "item list \<Rightarrow> elem list \<Rightarrow> node list \<Rightarrow> error option \<times> elem list \<times> node list" where
  "removeTargets [] elements ns = (None, elements, ns)"
| "removeTargets (v # vs) elements ns =
     (case indexOf elements (el v) of
        Some idx \<Rightarrow> removeTargets vs (splice1 idx elements) ns
      | None \<Rightarrow>
          (if list_ex (is_element (el v)) ns
           then removeTargets vs elements (removeChild ns (el v))
           else (Some TypeError, elements, ns)))"

text \<open>The trimming step of \<open>_adjustRange\<close>: the number of supplied elements dropped
  and the elements kept.\<close>

definition trimElements :: "int \<Rightarrow> bool \<Rightarrow> elem list \<Rightarrow> nat \<times> elem list" where
  "trimElements cnt isTop elements =
     (if cnt \<le> int (length elements)
      then (if isTop
            then (length (take (length elements - nat cnt) elements),
                  drop (length elements - nat cnt) elements)
            else (length (drop (nat cnt) elements), take (nat cnt) elements))
      else (0, elements))"

text \<open>\<open>_adjustRange(isTop, elements)\<close>: the removed count, the array \<open>elements\<close> as
  the call leaves it, and the instance; or the error raised, with the instance as it
  is at that moment.\<close>

definition adjustRange ::
  "collaborators \<Rightarrow> grid \<Rightarrow> bool \<Rightarrow> elem list \<Rightarrow> (error \<times> grid) + (nat \<times> elem list \<times> grid)" where
  "adjustRange L g isTop elements0 =
     (if \<not> isRecycling g then Inr (0, elements0, g)
      else
        let (removed1, elements) = trimElements (count (options g)) isTop elements0;
            diff = int (length (items (layoutManager g))) + int (length elements)
                     - count (options g)
        in if diff \<le> 0 then Inr (removed1, elements, g)
           else
             let idx = getDelimiterIndex L (layoutManager g) isTop diff
             in if idx < 0 then Inr (removed1, elements, g)
                else
                  let (targets, lm') = adjustItems L (layoutManager g) isTop idx
                  in (case removeTargets targets elements (childNodes g) of
                        (Some e, elements', ns') \<Rightarrow>
                          Inl (e, g\<lparr>layoutManager := lm', childNodes := ns'\<rparr>)
                      | (None, elements', ns') \<Rightarrow>
                          Inr (removed1 + length targets, elements',
                               g\<lparr>layoutManager := lm', childNodes := ns'\<rparr>)))"

text \<open>\<open>layout(isRelayout, _addItems, _options)\<close> followed by \<open>_waitResource\<close>: the flag
  is set and the callback is scheduled (after the images are ready, or on the next
  turn of the event loop); prepended items are reversed.\<close>

definition layout :: "grid \<Rightarrow> bool \<Rightarrow> item list option \<Rightarrow> layout_options \<Rightarrow> grid" where
  "layout g isRelayout addItems opts =
     (let g1 = g\<lparr>status := (status g)\<lparr>status_isProcessing := True\<rparr>\<rparr>;
          opts1 = (if addItems = None \<and> \<not> isAppend opts then opts\<lparr>isAppend := True\<rparr> else opts);
          addItems1 = (if isAppend opts1 then addItems else map_option rev addItems)
      in g1\<lparr>pending := pending g1 @
             [\<lparr>p_isRelayout = isRelayout, p_addItems = addItems1, p_options = opts1\<rparr>]\<rparr>)"

text \<open>\<open>docFragment.appendChild(v)\<close> for every element: a node is moved, so it leaves
  the container and any earlier place in the fragment.\<close>

fun toFragment :: "elem list \<Rightarrow> node list \<Rightarrow> node list \<Rightarrow> node list \<times> node list" where
  "toFragment [] frag ns = (frag, ns)"
| "toFragment (v # vs) frag ns =
     toFragment vs (removeChild frag v @ [Element v]) (removeChild ns v)"

text \<open>\<open>_insert(paramElements, groupKey, isAppend)\<close>: the returned count and the
  instance; or the error raised by \<open>_adjustRange\<close>, with the instance as it is at that
  moment.\<close>

definition insert_els ::
  "collaborators \<Rightarrow> grid \<Rightarrow> elem list \<Rightarrow> nat option \<Rightarrow> bool \<Rightarrow> (error \<times> grid) + (nat \<times> grid)" where
  "insert_els L g paramElements gk isAppend' =
     (if isProcessing g \<or> length paramElements = 0 then Inr (0, g)
      else
        let (elements0, g1) = prepareElement g paramElements;
            dummy = - clientHeight (status g1);
            elements = map (\<lambda>v. v\<lparr>style_position := ''absolute'', style_top := Some dummy\<rparr>) elements0
        in (case adjustRange L g1 isAppend' elements of
              Inl e \<Rightarrow> Inl e
            | Inr (removed, cloneElements, g2) \<Rightarrow>
                let (frag, ns) = toFragment cloneElements [] (childNodes g2);
                    g3 = g2\<lparr>childNodes := (if isAppend' then ns @ frag else frag @ ns)\<rparr>;
                    g4 = layout g3 False (Some (itemize L cloneElements gk))
                           \<lparr>isAppend = isAppend', removedCount = removed\<rparr>
                in Inr (length cloneElements, g4)))"

definition append_els :: "collaborators \<Rightarrow> grid \<Rightarrow> elem list \<Rightarrow> nat option \<Rightarrow> (error \<times> grid) + (nat \<times> grid)" where
  "append_els L g paramElements gk = insert_els L g paramElements gk True"

definition prepend_els :: "collaborators \<Rightarrow> grid \<Rightarrow> elem list \<Rightarrow> nat option \<Rightarrow> (error \<times> grid) + (nat \<times> grid)" where
  "prepend_els L g paramElements gk = insert_els L g paramElements gk False"

section \<open>Layout completion: \<open>_onLayoutComplete\<close>, \<open>_postLayout\<close>, \<open>_doubleCheckForPrepend\<close>\<close>

text \<open>\<open>trigger(name, payload)\<close>: the event is delivered (handlers are the caller's).\<close>

definition trigger :: "grid \<Rightarrow> event \<Rightarrow> grid" where
  "trigger g e = g\<lparr>events := events g @ [e]\<rparr>"

definition getTopElement :: "collaborators \<Rightarrow> grid \<Rightarrow> elem option" where
  "getTopElement L g = map_option el (getTopItem L (layoutManager g))"

definition getBottomElement :: "collaborators \<Rightarrow> grid \<Rightarrow> elem option" where
  "getBottomElement L g = map_option el (getBottomItem L (layoutManager g))"

definition resizeContainerHeight :: "collaborators \<Rightarrow> grid \<Rightarrow> grid" where
  "resizeContainerHeight L g = g\<lparr>style_height := Some (getLogicalHeight L (layoutManager g))\<rparr>"

text \<open>Modelled from the spec: \<open>utils.scrollTop\<close> and \<open>view.scrollTo\<close> are not in the
  sources; they are the collaborator operations \<open>scrollOffset()\<close> and
  \<open>setScrollOffset(px)\<close> of the spec, reading and writing the offset of the view.\<close>

definition scrollTop :: "grid \<Rightarrow> int" where
  "scrollTop g = viewScrollTop g"

definition scrollTo :: "grid \<Rightarrow> int \<Rightarrow> grid" where
  "scrollTo g y = g\<lparr>viewScrollTop := y\<rparr>"

definition doubleCheckForPrepend :: "grid \<Rightarrow> grid" where
  "doubleCheckForPrepend g =
     (if scrollTop g = 0 then g\<lparr>timer := (timer g)\<lparr>doubleCheck := True\<rparr>\<rparr> else g)"

text \<open>One firing of the interval installed by \<open>_doubleCheckForPrepend\<close> (every 500 ms
  while the timer is armed).\<close>

definition doubleCheckTick :: "grid \<Rightarrow> grid" where
  "doubleCheckTick g =
     (if \<not> doubleCheck (timer g) then g
      else if scrollTop g = 0 then
        let g1 = trigger g (Prepend 0);
            c = doubleCheckCount (timer g1) - 1;
            g2 = g1\<lparr>timer := (timer g1)\<lparr>doubleCheckCount := c\<rparr>\<rparr>
        in (if c \<le> 0 then g2\<lparr>timer := (timer g2)\<lparr>doubleCheck := False\<rparr>\<rparr> else g2)
      else g)"

text \<open>The distance computed by \<open>_postLayout\<close> for a prepend.\<close>

definition prependDistance :: "grid \<Rightarrow> item list \<Rightarrow> int" where
  "prependDistance g addItems =
     (if length addItems \<ge> length (items (layoutManager g)) then 0
      else position_y (items (layoutManager g) ! length addItems))"

definition postLayout :: "collaborators \<Rightarrow> grid \<Rightarrow> bool \<Rightarrow> item list option \<Rightarrow> layout_options \<Rightarrow> grid" where
  "postLayout L g isRelayout addItemsArg opts =
     (let addItems = (case addItemsArg of None \<Rightarrow> [] | Some xs \<Rightarrow> xs)
      in if \<not> isProcessing g then g
         else
           let g1 = resizeContainerHeight L g;
               g2 = g1\<lparr>timer := (timer g1)\<lparr>doubleCheckCount := RETRY L\<rparr>\<rparr>;
               g3 = g2\<lparr>status := (status g2)\<lparr>topElement := getTopElement L g2\<rparr>\<rparr>;
               g4 = g3\<lparr>status := (status g3)\<lparr>bottomElement := getBottomElement L g3\<rparr>\<rparr>;
               dist = (if \<not> isAppend opts then prependDistance g4 addItems else 0);
               g5 = (if \<not> isAppend opts \<and> dist > 0
                     then let g' = g4\<lparr>status := (status g4)\<lparr>prevScrollTop := scrollTop g4 + dist\<rparr>\<rparr>
                          in scrollTo g' (prevScrollTop (status g'))
                     else g4);
               g6 = g5\<lparr>status := (status g5)\<lparr>status_isProcessing := False\<rparr>\<rparr>;
               g7 = trigger g6 (LayoutComplete
                      \<lparr>target = addItems, payload_isAppend = isAppend opts,
                       distance = dist, croppedCount = removedCount opts\<rparr>)
           in (if \<not> isAppend opts then doubleCheckForPrepend g7 else g7))"

definition onLayoutComplete :: "collaborators \<Rightarrow> grid \<Rightarrow> bool \<Rightarrow> item list option \<Rightarrow> layout_options \<Rightarrow> grid" where
  "onLayoutComplete L g isRelayout addItems opts =
     postLayout L (g\<lparr>layoutManager := layoutItems L (layoutManager g) isRelayout addItems opts\<rparr>)
       isRelayout addItems opts"

text \<open>The scheduled callback at index \<open>i\<close> runs (nothing happens when there is none).\<close>

definition runCallback :: "collaborators \<Rightarrow> grid \<Rightarrow> nat \<Rightarrow> grid" where
  "runCallback L g i =
     (if i < length (pending g)
      then let p = pending g ! i;
               g1 = g\<lparr>pending := take i (pending g) @ drop (Suc i) (pending g)\<rparr>
           in onLayoutComplete L g1 (p_isRelayout p) (p_addItems p) (p_options p)
      else g)"

section \<open>The scroll handler \<open>_onScroll\<close> (src/src/eventHandler.js)\<close>

definition fitItems :: "collaborators \<Rightarrow> grid \<Rightarrow> int \<times> grid" where
  "fitItems L g =
     (let (y, lm') = fit L (layoutManager g);
          g1 = g\<lparr>layoutManager := lm'\<rparr>
      in (y, if y \<noteq> 0 then resizeContainerHeight L g1 else g1))"

text \<open>Modelled from the spec: \<open>utils.isEmptyObject\<close> is not in the sources; the cached
  edge element is missing exactly when it is \<open>null\<close>.\<close>

definition isEmptyObject :: "elem option \<Rightarrow> bool" where
  "isEmptyObject e = (e = None)"

definition onScroll :: "collaborators \<Rightarrow> grid \<Rightarrow> grid" where
  "onScroll L g =
     (if isProcessing g then g
      else
        let scrollTop0 = scrollTop g;
            prev = prevScrollTop (status g)
        in if (IS_IOS L \<and> scrollTop0 = 0) \<or> prev = scrollTop0 then g
           else if prev < scrollTop0 then
             (let g1 = (if isEmptyObject (bottomElement (status g))
                        then g\<lparr>status := (status g)\<lparr>bottomElement := getBottomElement L g\<rparr>\<rparr>
                        else g)
              in (case bottomElement (status g1) of
                    None \<Rightarrow> g1
                  | Some ele \<Rightarrow>
                      let (rect_top, rect_bottom) = getBoundingClientRect L ele;
                          g2 = (if rect_top \<le> clientHeight (status g1) + threshold (options g1)
                                then trigger g1 (Append scrollTop0) else g1)
                      in g2\<lparr>status := (status g2)\<lparr>prevScrollTop := scrollTop0\<rparr>\<rparr>))
           else
             (let g1 = (if isEmptyObject (topElement (status g))
                        then g\<lparr>status := (status g)\<lparr>topElement := getTopElement L g\<rparr>\<rparr>
                        else g)
              in (case topElement (status g1) of
                    None \<Rightarrow> g1
                  | Some ele \<Rightarrow>
                      let (rect_top, rect_bottom) = getBoundingClientRect L ele
                      in if rect_bottom \<ge> - threshold (options g1) then
                           let (croppedDistance, g2) = fitItems L g1;
                               scrollTop1 = (if croppedDistance > 0
                                             then scrollTop0 - croppedDistance else scrollTop0);
                               g3 = (if croppedDistance > 0 then scrollTo g2 scrollTop1 else g2);
                               g4 = trigger g3 (Prepend scrollTop1)
                           in g4\<lparr>status := (status g4)\<lparr>prevScrollTop := scrollTop1\<rparr>\<rparr>
                         else g1\<lparr>status := (status g1)\<lparr>prevScrollTop := scrollTop0\<rparr>\<rparr>)))"

section \<open>Snapshots: \<open>getStatus\<close> and \<open>setStatus\<close>\<close>

text \<open>The inline style of the container as \<open>cssText\<close> serialises it; it is the empty
  string when no property is set.\<close>

record cssText =
  css_height :: "int option"
  css_rest :: string

definition css_empty :: "cssText \<Rightarrow> bool" where
  "css_empty c = (css_height c = None \<and> css_rest c = [])"

text \<open>The copy of \<open>_status\<close> made by \<open>getStatus\<close>: every own property that is not an
  \<open>Element\<close>, so a cached edge element is copied only when it is \<open>null\<close>.\<close>

record status_prop =
  prop_isProcessing :: bool
  prop_isRecycling :: bool
  prop_prevScrollTop :: int
  prop_clientHeight :: int
  prop_topElement_null :: bool
  prop_bottomElement_null :: bool

text \<open>
  Markup. The string \<open>innerHTML\<close> is represented by a list of nodes that it
  serialises: an element serialises to a non-empty string, text to its characters.
  Assigning the string to \<open>innerHTML\<close> parses it, which yields the nodes again, except
  that empty text vanishes and adjacent text is one node. The string is empty exactly
  when \<open>parse_markup\<close> yields no node.
\<close>

fun parse_markup :: "node list \<Rightarrow> node list" where
  "parse_markup [] = []"
| "parse_markup (Element e # ns) = Element e # parse_markup ns"
| "parse_markup (Text s # ns) =
     (if s = [] then parse_markup ns
      else (case parse_markup ns of
              Text s' # rest \<Rightarrow> Text (s @ s') # rest
            | rest \<Rightarrow> Text s # rest))"

text \<open>The argument of \<open>setStatus\<close>; a field that is missing is \<open>None\<close>.\<close>

record snapshot =
  snap_html :: "node list option"
  snap_cssText :: "cssText option"
  snap_layoutManager :: "layoutManager option"
  snap_options :: "grid_options option"
  snap_prop :: "status_prop option"

definition getStatus :: "collaborators \<Rightarrow> grid \<Rightarrow> snapshot" where
  "getStatus L g =
     \<lparr>snap_html = Some (childNodes g),
      snap_cssText = Some \<lparr>css_height = style_height g, css_rest = style_rest g\<rparr>,
      snap_layoutManager = Some (lmGetStatus L (layoutManager g)),
      snap_options = Some (options g),
      snap_prop = Some
        \<lparr>prop_isProcessing = status_isProcessing (status g),
         prop_isRecycling = status_isRecycling (status g),
         prop_prevScrollTop = prevScrollTop (status g),
         prop_clientHeight = clientHeight (status g),
         prop_topElement_null = (topElement (status g) = None),
         prop_bottomElement_null = (bottomElement (status g) = None)\<rparr>\<rparr>"

text \<open>JavaScript truthiness of the two string fields: present and not empty.\<close>

definition truthy_html :: "node list option \<Rightarrow> bool" where
  "truthy_html h = (case h of None \<Rightarrow> False | Some ns \<Rightarrow> parse_markup ns \<noteq> [])"

definition truthy_cssText :: "cssText option \<Rightarrow> bool" where
  "truthy_cssText c = (case c of None \<Rightarrow> False | Some t \<Rightarrow> \<not> css_empty t)"

text \<open>\<open>Object.assign(this._status, status.prop)\<close>\<close>

definition assignProp :: "grid_status \<Rightarrow> status_prop \<Rightarrow> grid_status" where
  "assignProp st p =
     \<lparr>status_isProcessing = prop_isProcessing p,
      status_isRecycling = prop_isRecycling p,
      prevScrollTop = prop_prevScrollTop p,
      topElement = (if prop_topElement_null p then None else topElement st),
      bottomElement = (if prop_bottomElement_null p then None else bottomElement st),
      clientHeight = prop_clientHeight p\<rparr>"

text \<open>\<open>setStatus(status)\<close>; the argument itself may be missing.\<close>

definition setStatus :: "collaborators \<Rightarrow> grid \<Rightarrow> snapshot option \<Rightarrow> grid" where
  "setStatus L g arg =
     (case arg of
        None \<Rightarrow> g
      | Some st \<Rightarrow>
          if snap_options st = None \<or> snap_prop st = None \<or> snap_layoutManager st = None
             \<or> \<not> truthy_html (snap_html st) \<or> \<not> truthy_cssText (snap_cssText st)
          then g
          else
            let css = the (snap_cssText st);
                g1 = g\<lparr>style_height := css_height css, style_rest := css_rest css\<rparr>;
                g2 = g1\<lparr>childNodes := parse_markup (the (snap_html st))\<rparr>;
                g3 = g2\<lparr>options := the (snap_options st)\<rparr>;
                g4 = g3\<lparr>status := assignProp (status g3) (the (snap_prop st))\<rparr>;
                g5 = g4\<lparr>layoutManager :=
                        lmSetStatus L (layoutManager g4) (the (snap_layoutManager st))\<rparr>;
                g6 = g5\<lparr>status := (status g5)\<lparr>topElement := getTopElement L g5\<rparr>\<rparr>
            in g6\<lparr>status := (status g6)\<lparr>bottomElement := getBottomElement L g6\<rparr>\<rparr>)"

section \<open>The window manager, from the specification\<close>

text \<open>Modelled from the spec: \<open>LayoutManager.getTopItem\<close> and \<open>getBottomItem\<close> are
  not in the sources; the edge items are the items at rank 0 and rank N-1 of the window.\<close>

definition LM_getTopItem :: "layoutManager \<Rightarrow> item option" where
  "LM_getTopItem lm = (case items lm of [] \<Rightarrow> None | x # xs \<Rightarrow> Some x)"

definition LM_getBottomItem :: "layoutManager \<Rightarrow> item option" where
  "LM_getBottomItem lm = (if items lm = [] then None else Some (last (items lm)))"

text \<open>Modelled from the spec: \<open>LayoutManager.getStatus\<close> and \<open>setStatus\<close> are not in
  the sources; the snapshot is a structural copy of the window contents (with positions
  and group keys) and of the column heights, and restoring installs them.\<close>

definition LM_getStatus :: "layoutManager \<Rightarrow> layoutManager" where
  "LM_getStatus lm = \<lparr>items = items lm, cols = cols lm\<rparr>"

definition LM_setStatus :: "layoutManager \<Rightarrow> layoutManager \<Rightarrow> layoutManager" where
  "LM_setStatus lm st = lm\<lparr>items := items st, cols := cols st\<rparr>"

text \<open>A cut of the window before rank \<open>i\<close> separates the ranks below \<open>i\<close> from the
  ranks from \<open>i\<close> on. It splits a group when some group key occurs on both sides; it
  respects the group boundaries when it splits none.\<close>

definition splits_group :: "item list \<Rightarrow> nat \<Rightarrow> bool" where
  "splits_group xs i =
     list_ex (\<lambda>x. list_ex (\<lambda>y. groupKey y = groupKey x) (drop i xs)) (take i xs)"

text \<open>Modelled from the spec: \<open>LayoutManager.getDelimiterIndex\<close> is not in the
  sources. Given how many items exceed capacity, it returns the rank index up to which
  eviction must extend to both satisfy the overflow count and respect group boundaries,
  and -1 if no valid boundary-respecting index exists within the current window.
  Eviction is from the top when \<open>isTop\<close> (the ranks below the index go) and from the
  bottom otherwise (the ranks from the index on go); the index is the rank nearest to
  the overflow count whose cut evicts at least \<open>overflow\<close> items and splits no group.\<close>

definition LM_getDelimiterIndex :: "layoutManager \<Rightarrow> bool \<Rightarrow> int \<Rightarrow> int" where
  "LM_getDelimiterIndex lm isTop overflow =
     (let xs = items lm; n = length xs
      in if isTop
         then (case filter (\<lambda>i. \<not> splits_group xs i) [nat overflow ..< n] of
                 [] \<Rightarrow> - 1 | i # _ \<Rightarrow> int i)
         else (case rev (filter (\<lambda>i. \<not> splits_group xs i) [1 ..< Suc (n - nat overflow)]) of
                 [] \<Rightarrow> - 1 | i # _ \<Rightarrow> int i))"

text \<open>The cut at rank \<open>i\<close> extended outward to the nearest group boundary: towards
  the bottom when evicting from the top, towards the top when evicting from the
  bottom, so that more is evicted and no group is split. The two ends of the window
  split nothing.\<close>

definition extend_cut :: "item list \<Rightarrow> bool \<Rightarrow> nat \<Rightarrow> nat" where
  "extend_cut xs isTop i =
     (if isTop
      then (case filter (\<lambda>j. \<not> splits_group xs j) [i ..< length xs] of
              [] \<Rightarrow> length xs | j # _ \<Rightarrow> j)
      else (case rev (filter (\<lambda>j. \<not> splits_group xs j) [0 ..< Suc (min i (length xs))]) of
              [] \<Rightarrow> 0 | j # _ \<Rightarrow> j))"

text \<open>Modelled from the spec: \<open>LayoutManager.adjustItems\<close> is not in the sources. Given
  the direction and the extent of the eviction computed by the caller (the index that
  \<open>_adjustRange\<close> passes on from \<open>getDelimiterIndex\<close>), it removes that many items from
  the end of the window opposite the insertion direction, extended outward to the
  nearest group boundary (it never evicts part of a group), and returns the evicted
  items.\<close>

definition LM_adjustItems :: "layoutManager \<Rightarrow> bool \<Rightarrow> int \<Rightarrow> item list \<times> layoutManager" where
  "LM_adjustItems lm isTop idx =
     (let j = extend_cut (items lm) isTop (nat idx)
      in if isTop then (take j (items lm), lm\<lparr>items := drop j (items lm)\<rparr>)
         else (drop j (items lm), lm\<lparr>items := take j (items lm)\<rparr>))"

text \<open>The items of a window that carry the group key \<open>k\<close>.\<close>

definition group_of :: "nat option \<Rightarrow> item list \<Rightarrow> item list" where
  "group_of k xs = filter (\<lambda>x. groupKey x = k) xs"

text \<open>Modelled from the spec: \<open>LayoutManager.itemize\<close> is not in the sources; it
  converts raw elements into items tagged with the supplied group key, preserving the
  input order.\<close>

definition LM_itemize :: "elem list \<Rightarrow> nat option \<Rightarrow> item list" where
  "LM_itemize es gk = map (\<lambda>e. \<lparr>el = e, groupKey = gk, position_y = 0\<rparr>) es"

text \<open>Modelled from the spec: \<open>LayoutManager.getLogicalHeight\<close> is not in the
  sources; it returns the maximum column height.\<close>

definition LM_getLogicalHeight :: "layoutManager \<Rightarrow> int" where
  "LM_getLogicalHeight lm = fold max (cols lm) 0"

text \<open>Modelled from the spec: \<open>LayoutManager.fit\<close> is not in the sources; it shifts
  every item upward by the dead space above the window and returns the shifted
  distance, 0 if no shift occurred.\<close>

definition LM_fit :: "layoutManager \<Rightarrow> int \<times> layoutManager" where
  "LM_fit lm =
     (case items lm of
        [] \<Rightarrow> (0, lm)
      | x # xs \<Rightarrow>
          let y = fold min (map position_y xs) (position_y x)
          in (y, lm\<lparr>items := map (\<lambda>v. v\<lparr>position_y := position_y v - y\<rparr>) (items lm),
                    cols := map (\<lambda>h. h - y) (cols lm)\<rparr>))"

section \<open>The constructor and concrete instances\<close>

definition default_options :: grid_options where
  "default_options = \<lparr>isEqualSize = False, defaultGroupKey = None, count = 30, threshold = 300\<rparr>"

definition default_layout_options :: layout_options where
  "default_layout_options = \<lparr>isAppend = True, removedCount = 0\<rparr>"

text \<open>\<open>new InfiniteGrid(el, options)\<close> over a container with the child nodes \<open>ns\<close> and no
  inline style, in a view of height \<open>viewH\<close> scrolled to \<open>scroll0\<close>; \<open>opts\<close> are the
  defaults overridden by the caller's options. A new layout manager holds no items
  and no columns.\<close>

definition construct :: "collaborators \<Rightarrow> grid_options \<Rightarrow> int \<Rightarrow> int \<Rightarrow> node list \<Rightarrow> grid" where
  "construct L opts viewH scroll0 ns =
     (let g0 = \<lparr>options = opts,
                status = \<lparr>status_isProcessing = False, status_isRecycling = False,
                          prevScrollTop = 0, topElement = None, bottomElement = None,
                          clientHeight = viewH\<rparr>,
                timer = \<lparr>resize = False, doubleCheck = False, doubleCheckCount = RETRY L\<rparr>,
                layoutManager = \<lparr>items = [], cols = []\<rparr>,
                childNodes = ns, style_height = None, style_rest = [],
                viewScrollTop = scroll0, events = [], pending = []\<rparr>
      in if length (children g0) > 0
         then layout g0 True (Some (itemize L (children g0) (defaultGroupKey opts)))
                default_layout_options
         else g0)"

text \<open>An element with the given identity and tag name.\<close>

definition mk_elem :: "nat \<Rightarrow> string \<Rightarrow> elem" where
  "mk_elem n t = \<lparr>eid = n, tagName = t, style_position = [], style_top = None\<rparr>"

text \<open>A layout manager for running the orchestrator on concrete inputs: the window
  manager of the previous section, a placement step that only adds the new items
  to the window (after it when appending, before it when prepending), and an element
  rectangle that is always within the thresholds.\<close>

definition example_layoutItems ::
  "layoutManager \<Rightarrow> bool \<Rightarrow> item list option \<Rightarrow> layout_options \<Rightarrow> layoutManager" where
  "example_layoutItems lm isRelayout addItems opts =
     (case addItems of
        None \<Rightarrow> lm
      | Some xs \<Rightarrow> lm\<lparr>items := (if isAppend opts then items lm @ xs else xs @ items lm)\<rparr>)"

definition example_collaborators :: collaborators where
  "example_collaborators =
     \<lparr>IS_IOS = False, RETRY = 3,
      getDelimiterIndex = LM_getDelimiterIndex,
      adjustItems = LM_adjustItems,
      itemize = LM_itemize,
      layoutItems = example_layoutItems,
      fit = LM_fit,
      getTopItem = LM_getTopItem,
      getBottomItem = LM_getBottomItem,
      getLogicalHeight = LM_getLogicalHeight,
      lmGetStatus = LM_getStatus,
      lmSetStatus = LM_setStatus,
      getBoundingClientRect = (\<lambda>e. (0, 100))\<rparr>"

text \<open>A fresh instance over an empty container.\<close>

definition empty_grid :: grid where
  "empty_grid = construct example_collaborators default_options 600 0 []"

text \<open>The two components of what \<open>append\<close> and \<open>prepend\<close> return.\<close>

definition returned_count :: "(error \<times> grid) + (nat \<times> grid) \<Rightarrow> nat option" where
  "returned_count r = (case r of Inl e \<Rightarrow> None | Inr (n, g) \<Rightarrow> Some n)"

definition resulting_grid :: "(error \<times> grid) + (nat \<times> grid) \<Rightarrow> grid option" where
  "resulting_grid r = (case r of Inl e \<Rightarrow> None | Inr (n, g) \<Rightarrow> Some g)"

text \<open>The instance after the call, whether it returned or raised.\<close>

definition grid_after :: "(error \<times> grid) + (nat \<times> grid) \<Rightarrow> grid" where
  "grid_after r = (case r of Inl (e, g) \<Rightarrow> g | Inr (n, g) \<Rightarrow> g)"

text \<open>The same for \<open>_adjustRange\<close>.\<close>

definition range_after :: "(error \<times> grid) + (nat \<times> elem list \<times> grid) \<Rightarrow> grid" where
  "range_after r = (case r of Inl (e, g) \<Rightarrow> g | Inr (n, es, g) \<Rightarrow> g)"

text \<open>An instance whose first insertion is still in flight.\<close>

definition busy_grid :: grid where
  "busy_grid = the (resulting_grid (append_els example_collaborators empty_grid [mk_elem 1 ''DIV''] None))"


text \<open>An item over a \<open>DIV\<close> element, with its group key and vertical position.\<close>

definition mk_item :: "nat \<Rightarrow> nat option \<Rightarrow> int \<Rightarrow> item" where
  "mk_item n k y = \<lparr>el = mk_elem n ''DIV'', groupKey = k, position_y = y\<rparr>"

text \<open>An idle instance scrolled up from 200 to 120 whose top item sits 50 pixels
  below the top of the container.\<close>

definition scroll_up_grid :: grid where
  "scroll_up_grid =
     empty_grid\<lparr>status := (status empty_grid)\<lparr>prevScrollTop := 200\<rparr>,
                layoutManager := \<lparr>items = [mk_item 1 (Some 1) 50, mk_item 2 (Some 1) 150], cols = [250]\<rparr>,
                childNodes := map Element [mk_elem 1 ''DIV'', mk_elem 2 ''DIV''],
                viewScrollTop := 120\<rparr>"

text \<open>\<open>n\<close> successive firings of the double-check interval.\<close>

fun ticks :: "nat \<Rightarrow> grid \<Rightarrow> grid" where
  "ticks 0 g = g"
| "ticks (Suc n) g = ticks n (doubleCheckTick g)"

text \<open>An instance at scroll offset 0 whose window holds element 1 and which has just
  completed a prepend of element 2.\<close>

definition polling_grid :: grid where
  "polling_grid =
     runCallback example_collaborators
       (the (resulting_grid
          (prepend_els example_collaborators
             (runCallback example_collaborators
                (construct example_collaborators default_options 600 0 [Element (mk_elem 1 ''DIV'')]) 0)
             [mk_elem 2 ''DIV''] None))) 0"

text \<open>The overflow \<open>diff\<close> that \<open>_adjustRange\<close> hands to \<open>getDelimiterIndex\<close>: the
  window length plus the trimmed batch length minus the capacity.\<close>

definition overflow :: "grid \<Rightarrow> bool \<Rightarrow> elem list \<Rightarrow> int" where
  "overflow g isTop elements0 =
     int (length (items (layoutManager g)))
       + int (length (snd (trimElements (count (options g)) isTop elements0)))
       - count (options g)"

text \<open>A recycling instance of capacity 3 whose window holds the group keys 1, 2, 1
  in this order (the key 1 was used for two separate batches).\<close>

definition reused_key_grid :: grid where
  "reused_key_grid =
     empty_grid\<lparr>options := default_options\<lparr>count := 3\<rparr>,
                status := (status empty_grid)\<lparr>status_isRecycling := True\<rparr>,
                layoutManager := \<lparr>items = [mk_item 1 (Some 1) 0, mk_item 2 (Some 2) 100,
                                            mk_item 3 (Some 1) 200], cols = [300]\<rparr>,
                childNodes := map Element [mk_elem 1 ''DIV'', mk_elem 2 ''DIV'', mk_elem 3 ''DIV'']\<rparr>"

text \<open>A recycling instance of capacity 3 whose window is one group of three items.\<close>

definition single_group_grid :: grid where
  "single_group_grid =
     empty_grid\<lparr>options := default_options\<lparr>count := 3\<rparr>,
                status := (status empty_grid)\<lparr>status_isRecycling := True\<rparr>,
                layoutManager := \<lparr>items = [mk_item 1 (Some 1) 0, mk_item 2 (Some 1) 100,
                                            mk_item 3 (Some 1) 200], cols = [300]\<rparr>,
                childNodes := map Element [mk_elem 1 ''DIV'', mk_elem 2 ''DIV'', mk_elem 3 ''DIV'']\<rparr>"

text \<open>Scenario A before its last step: capacity 4, the window holds the groups
  1 = {1, 2} and 2 = {3, 4}.\<close>

definition scenario_A_grid :: grid where
  "scenario_A_grid =
     empty_grid\<lparr>options := default_options\<lparr>count := 4\<rparr>,
                status := (status empty_grid)\<lparr>status_isRecycling := True\<rparr>,
                layoutManager := \<lparr>items = [mk_item 1 (Some 1) 0, mk_item 2 (Some 1) 100,
                                            mk_item 3 (Some 2) 200, mk_item 4 (Some 2) 300],
                                   cols = [400]\<rparr>,
                childNodes := map Element [mk_elem 1 ''DIV'', mk_elem 2 ''DIV'', mk_elem 3 ''DIV'',
                             mk_elem 4 ''DIV'']\<rparr>"

text \<open>A fresh instance over a container with one card, after its initial layout.\<close>

definition one_card_grid :: grid where
  "one_card_grid =
     runCallback example_collaborators
       (construct example_collaborators default_options 600 0 [Element (mk_elem 1 ''DIV'')]) 0"

section \<open>A one-column layout step\<close>

text \<open>
  A layout step for one column of cards of equal height \<open>h\<close>, written after the
  spec's description of placement: appended cards are placed below the last item;
  prepended cards are placed from the top edge of the window downward and every item
  already placed is shifted down by the height of the inserted block. It serves to run
  whole layout cycles on concrete inputs.
\<close>

fun place :: "int \<Rightarrow> int \<Rightarrow> item list \<Rightarrow> item list" where
  "place h y [] = []"
| "place h y (x # xs) = x\<lparr>position_y := y\<rparr> # place h (y + h) xs"

definition column_layoutItems ::
  "int \<Rightarrow> layoutManager \<Rightarrow> bool \<Rightarrow> item list option \<Rightarrow> layout_options \<Rightarrow> layoutManager" where
  "column_layoutItems h lm isRelayout addItems opts =
     (case addItems of
        None \<Rightarrow> lm
      | Some xs \<Rightarrow>
          if isAppend opts then
            let bottom = (if items lm = [] then 0 else position_y (last (items lm)) + h)
            in lm\<lparr>items := items lm @ place h bottom xs,
                   cols := [bottom + h * int (length xs)]\<rparr>
          else
            let top = (case items lm of [] \<Rightarrow> 0 | x # rest \<Rightarrow> position_y x);
                block = h * int (length xs)
            in lm\<lparr>items := place h top xs
                              @ map (\<lambda>v. v\<lparr>position_y := position_y v + block\<rparr>) (items lm),
                   cols := (if cols lm = [] then [top + block]
                            else map (\<lambda>c. c + block) (cols lm))\<rparr>)"

definition column_collaborators :: "int \<Rightarrow> collaborators" where
  "column_collaborators h = example_collaborators\<lparr>layoutItems := column_layoutItems h\<rparr>"

text \<open>The window as a list of element identities with their vertical positions.\<close>

definition window_positions :: "grid \<Rightarrow> (nat \<times> int) list" where
  "window_positions g = map (\<lambda>v. (eid (el v), position_y v)) (items (layoutManager g))"

text \<open>The distance carried by the last event, when that is a layoutComplete.\<close>

definition last_distance :: "grid \<Rightarrow> int option" where
  "last_distance g =
     (if events g = [] then None
      else (case last (events g) of LayoutComplete p \<Rightarrow> Some (distance p) | _ \<Rightarrow> None))"

text \<open>Scenario D. Cards are 50 high. A fresh instance receives card 1, the view is
  scrolled to 200, and card 2 is prepended: the state in which the layout callback of
  that prepend is about to run, and the state after it has run.\<close>

definition scenario_D_before :: grid where
  "scenario_D_before =
     the (resulting_grid
       (prepend_els (column_collaborators 50)
          ((runCallback (column_collaborators 50)
              (the (resulting_grid
                 (append_els (column_collaborators 50)
                    (construct (column_collaborators 50) default_options 600 0 [])
                    [mk_elem 1 ''DIV''] (Some 1)))) 0)\<lparr>viewScrollTop := 200\<rparr>)
          [mk_elem 2 ''DIV''] (Some 2)))"

definition scenario_D_after :: grid where
  "scenario_D_after = runCallback (column_collaborators 50) scenario_D_before 0"


section \<open>Properties\<close>

subsection \<open>Rejected insertions\<close>

text \<open>
  C2 (as amended). For every call to append or prepend, if the instance is processing
  or the supplied element list is empty, the call returns 0 and leaves the whole state
  as it was: no flag changes, no layout is scheduled and no event is emitted. The
  emptiness of the window is not a condition of the guard.
\<close>

theorem C2_insert_noop:
  "isProcessing g \<or> paramElements = [] \<Longrightarrow>
     append_els L g paramElements gk = Inr (0, g) \<and> prepend_els L g paramElements gk = Inr (0, g)"
  by (auto simp: append_els_def prepend_els_def insert_els_def)

theorem C2_insert_noop_witness:
  "append_els example_collaborators empty_grid [] None = Inr (0, empty_grid)
   \<and> prepend_els example_collaborators empty_grid [] None = Inr (0, empty_grid)"
proof -
  have h: "isProcessing empty_grid \<or> ([] :: elem list) = []" by simp
  show ?thesis by (rule C2_insert_noop [OF h])
qed

text \<open>On an empty window an idle instance does insert a supplied element.\<close>

theorem C2_empty_window_counterexample:
  "items (layoutManager empty_grid) = []
   \<and> returned_count (append_els example_collaborators empty_grid [mk_elem 1 ''DIV''] None) = Some 1
   \<and> map_option (\<lambda>g. length (pending g))
        (resulting_grid (append_els example_collaborators empty_grid [mk_elem 1 ''DIV''] None)) = Some 1"
  by code_simp

subsection \<open>The processing flag as a gate\<close>

text \<open>
  C3 (as amended). While the processing flag is set, every scroll signal is dropped
  and every insertion attempt is rejected: the state, and with it the list of scheduled
  layout cycles and the list of emitted events, stays as it was and nothing is queued.
  (The flag does not gate \<open>layout\<close> itself.)
\<close>

theorem C3_processing_gate:
  "isProcessing g \<Longrightarrow>
     onScroll L g = g
     \<and> append_els L g paramElements gk = Inr (0, g)
     \<and> prepend_els L g paramElements gk = Inr (0, g)"
  by (simp add: onScroll_def append_els_def prepend_els_def insert_els_def)

theorem C3_processing_gate_witness:
  "onScroll example_collaborators busy_grid = busy_grid
   \<and> append_els example_collaborators busy_grid [mk_elem 2 ''DIV''] None = Inr (0, busy_grid)
   \<and> prepend_els example_collaborators busy_grid [mk_elem 2 ''DIV''] None = Inr (0, busy_grid)"
proof -
  have h: "isProcessing busy_grid" by code_simp
  show ?thesis by (rule C3_processing_gate [OF h])
qed

text \<open>A call of \<open>layout\<close> while a cycle is in flight schedules a second one.\<close>

theorem C3_two_cycles_counterexample:
  "isProcessing busy_grid
   \<and> length (pending busy_grid) = 1
   \<and> length (pending (layout busy_grid True None default_layout_options)) = 2"
  by code_simp

subsection \<open>Scroll signals without movement\<close>

text \<open>
  C4. A scroll signal whose offset equals the last processed offset is a no-op: no
  event is emitted and the state does not change. On iOS a signal at offset 0 is
  ignored whatever the previous offset was.
\<close>

theorem C4_scroll_unchanged:
  "scrollTop g = prevScrollTop (status g) \<or> (IS_IOS L \<and> scrollTop g = 0) \<Longrightarrow> onScroll L g = g"
  by (auto simp: onScroll_def)

theorem C4_scroll_unchanged_witness:
  "onScroll example_collaborators empty_grid = empty_grid
   \<and> onScroll (example_collaborators\<lparr>IS_IOS := True\<rparr>)
        (empty_grid\<lparr>status := (status empty_grid)\<lparr>prevScrollTop := 40\<rparr>\<rparr>)
      = empty_grid\<lparr>status := (status empty_grid)\<lparr>prevScrollTop := 40\<rparr>\<rparr>"
proof -
  have h1: "scrollTop empty_grid = prevScrollTop (status empty_grid)
            \<or> (IS_IOS example_collaborators \<and> scrollTop empty_grid = 0)"
    by code_simp
  have h2: "scrollTop (empty_grid\<lparr>status := (status empty_grid)\<lparr>prevScrollTop := 40\<rparr>\<rparr>)
              = prevScrollTop (status (empty_grid\<lparr>status := (status empty_grid)\<lparr>prevScrollTop := 40\<rparr>\<rparr>))
            \<or> (IS_IOS (example_collaborators\<lparr>IS_IOS := True\<rparr>)
                \<and> scrollTop (empty_grid\<lparr>status := (status empty_grid)\<lparr>prevScrollTop := 40\<rparr>\<rparr>) = 0)"
    by code_simp
  show ?thesis using C4_scroll_unchanged [OF h1] C4_scroll_unchanged [OF h2] by (rule conjI)
qed

subsection \<open>Malformed snapshots\<close>

text \<open>
  C7. For every argument of \<open>setStatus\<close> that is missing, or that is missing any of the
  fields options, prop, layoutManager, html or cssText, \<open>setStatus\<close> returns the
  instance with its state completely unchanged.
\<close>

theorem C7_setStatus_missing_field:
  "arg = None
   \<or> (\<exists>st. arg = Some st
         \<and> (snap_options st = None \<or> snap_prop st = None \<or> snap_layoutManager st = None
            \<or> snap_html st = None \<or> snap_cssText st = None))
   \<Longrightarrow> setStatus L g arg = g"
  by (auto simp: setStatus_def truthy_html_def truthy_cssText_def)

theorem C7_setStatus_missing_field_witness:
  "setStatus example_collaborators empty_grid
     (Some ((getStatus example_collaborators busy_grid)\<lparr>snap_prop := None\<rparr>)) = empty_grid"
proof -
  have h: "Some ((getStatus example_collaborators busy_grid)\<lparr>snap_prop := None\<rparr>) = None
     \<or> (\<exists>st. Some ((getStatus example_collaborators busy_grid)\<lparr>snap_prop := None\<rparr>) = Some st
         \<and> (snap_options st = None \<or> snap_prop st = None \<or> snap_layoutManager st = None
            \<or> snap_html st = None \<or> snap_cssText st = None))"
    by simp
  show ?thesis by (rule C7_setStatus_missing_field [OF h])
qed

subsection \<open>Scroll compensation\<close>

text \<open>
  C5. When a scroll signal upward finds the top edge item within the prepend threshold,
  the handler first runs fit; if the returned distance is positive it subtracts that
  distance from the raw scroll offset and repositions the view there; then it emits
  the prepend request, which carries the adjusted offset, and records that offset as
  the last processed one.
\<close>

theorem C5_prepend_adjusted_offset:
  assumes "\<not> isProcessing g"
    and "\<not> (IS_IOS L \<and> scrollTop g = 0)"
    and "scrollTop g < prevScrollTop (status g)"
    and "(if isEmptyObject (topElement (status g)) then getTopElement L g
          else topElement (status g)) = Some ele"
    and "- threshold (options g) \<le> snd (getBoundingClientRect L ele)"
    and "fit L (layoutManager g) = (d, lm')"
  shows "layoutManager (onScroll L g) = lm'
         \<and> events (onScroll L g)
             = events g @ [Prepend (if 0 < d then scrollTop g - d else scrollTop g)]
         \<and> scrollTop (onScroll L g) = (if 0 < d then scrollTop g - d else scrollTop g)
         \<and> prevScrollTop (status (onScroll L g))
             = (if 0 < d then scrollTop g - d else scrollTop g)"
  using assms
  by (cases "getBoundingClientRect L ele")
     (auto simp: onScroll_def Let_def fitItems_def trigger_def scrollTo_def scrollTop_def
        resizeContainerHeight_def isProcessing_def isEmptyObject_def split: if_splits)

theorem C5_prepend_adjusted_offset_witness:
  "layoutManager (onScroll example_collaborators scroll_up_grid)
     = \<lparr>items = [mk_item 1 (Some 1) 0, mk_item 2 (Some 1) 100], cols = [200]\<rparr>
   \<and> events (onScroll example_collaborators scroll_up_grid) = [Prepend 70]
   \<and> scrollTop (onScroll example_collaborators scroll_up_grid) = 70
   \<and> prevScrollTop (status (onScroll example_collaborators scroll_up_grid)) = 70"
proof -
  have h1: "\<not> isProcessing scroll_up_grid" by code_simp
  have h2: "\<not> (IS_IOS example_collaborators \<and> scrollTop scroll_up_grid = 0)" by code_simp
  have h3: "scrollTop scroll_up_grid < prevScrollTop (status scroll_up_grid)" by code_simp
  have h4: "(if isEmptyObject (topElement (status scroll_up_grid))
             then getTopElement example_collaborators scroll_up_grid
             else topElement (status scroll_up_grid)) = Some (mk_elem 1 ''DIV'')" by code_simp
  have h5: "- threshold (options scroll_up_grid)
              \<le> snd (getBoundingClientRect example_collaborators (mk_elem 1 ''DIV''))" by code_simp
  have h6: "fit example_collaborators (layoutManager scroll_up_grid)
              = (50, \<lparr>items = [mk_item 1 (Some 1) 0, mk_item 2 (Some 1) 100], cols = [200]\<rparr>)"
    by code_simp
  have e: "events scroll_up_grid = []" by code_simp
  have s: "scrollTop scroll_up_grid = 120" by code_simp
  from C5_prepend_adjusted_offset [OF h1 h2 h3 h4 h5 h6] show ?thesis
    by (simp add: e s)
qed

subsection \<open>The double check after a prepend\<close>

lemma tick_off_top: "scrollTop g \<noteq> 0 \<Longrightarrow> doubleCheckTick g = g"
  by (simp add: doubleCheckTick_def)

lemma tick_disarmed: "\<not> doubleCheck (timer g) \<Longrightarrow> doubleCheckTick g = g"
  by (simp add: doubleCheckTick_def)

lemma ticks_disarmed: "\<not> doubleCheck (timer g) \<Longrightarrow> ticks n g = g"
  by (induction n) (simp_all add: tick_disarmed)

lemma tick_events:
  "events (doubleCheckTick g)
     = (if doubleCheck (timer g) \<and> scrollTop g = 0 then events g @ [Prepend 0] else events g)"
  by (simp add: doubleCheckTick_def Let_def trigger_def)

lemma tick_last:
  assumes "doubleCheck (timer g)" and "scrollTop g = 0" and "doubleCheckCount (timer g) \<le> 1"
  shows "\<not> doubleCheck (timer (doubleCheckTick g))"
  using assms by (simp add: doubleCheckTick_def Let_def trigger_def)

lemma tick_more:
  assumes "doubleCheck (timer g)" and "scrollTop g = 0" and "1 < doubleCheckCount (timer g)"
  shows "doubleCheck (timer (doubleCheckTick g))
         \<and> scrollTop (doubleCheckTick g) = 0
         \<and> doubleCheckCount (timer (doubleCheckTick g)) = doubleCheckCount (timer g) - 1"
  using assms by (simp add: doubleCheckTick_def Let_def trigger_def scrollTop_def)

lemma ticks_budget:
  "doubleCheck (timer g) \<Longrightarrow> scrollTop g = 0 \<Longrightarrow> doubleCheckCount (timer g) = int (Suc n) \<Longrightarrow>
     \<not> doubleCheck (timer (ticks (Suc n) g))
     \<and> events (ticks (Suc n) g) = events g @ replicate (Suc n) (Prepend 0)"
proof (induction n arbitrary: g)
  case 0
  then show ?case by (simp add: tick_last tick_events)
next
  case (Suc n)
  have more: "1 < doubleCheckCount (timer g)" using Suc.prems(3) by simp
  note t = tick_more [OF Suc.prems(1) Suc.prems(2) more]
  have c: "doubleCheckCount (timer (doubleCheckTick g)) = int (Suc n)"
    using t Suc.prems(3) by simp
  have ih: "\<not> doubleCheck (timer (ticks (Suc n) (doubleCheckTick g)))
            \<and> events (ticks (Suc n) (doubleCheckTick g))
                = events (doubleCheckTick g) @ replicate (Suc n) (Prepend 0)"
    using Suc.IH [of "doubleCheckTick g"] t c by blast
  have ev: "events (doubleCheckTick g) = events g @ [Prepend 0]"
    using Suc.prems(1) Suc.prems(2) by (simp add: tick_events)
  have unfold: "ticks (Suc (Suc n)) g = ticks (Suc n) (doubleCheckTick g)" by simp
  show ?case unfolding unfold using ih ev by (simp add: replicate_append_same)
qed

lemma postLayout_budget:
  "isProcessing g \<Longrightarrow> doubleCheckCount (timer (postLayout L g r a opts)) = RETRY L"
  by (simp add: postLayout_def Let_def trigger_def scrollTo_def scrollTop_def
        resizeContainerHeight_def doubleCheckForPrepend_def)

lemma postLayout_starts_loop:
  "doubleCheck (timer (postLayout L g r a opts)) \<Longrightarrow> \<not> doubleCheck (timer g) \<Longrightarrow>
     isProcessing g \<and> \<not> isAppend opts \<and> scrollTop (postLayout L g r a opts) = 0"
  by (auto simp: postLayout_def Let_def trigger_def scrollTo_def scrollTop_def
        resizeContainerHeight_def doubleCheckForPrepend_def split: if_splits)

text \<open>
  C9 (as amended). Only the completion of a prepend-direction layout cycle starts the
  double-check loop, and only when the scroll offset is 0 at that moment. A firing of
  the loop re-emits the prepend request exactly when the scroll offset is 0, and only
  such a firing uses up one attempt; a firing at any other offset does nothing and
  leaves the loop running. With a budget of n + 1 attempts and the offset staying at 0
  the loop emits n + 1 prepend requests and then stops for good; every layout
  completion sets the budget to RETRY.
\<close>

theorem C9_double_check_loop:
  "(doubleCheck (timer (postLayout L g r a opts)) \<and> \<not> doubleCheck (timer g) \<longrightarrow>
      isProcessing g \<and> \<not> isAppend opts \<and> scrollTop (postLayout L g r a opts) = 0)
   \<and> (isProcessing g \<longrightarrow> doubleCheckCount (timer (postLayout L g r a opts)) = RETRY L)
   \<and> events (doubleCheckTick g)
       = (if doubleCheck (timer g) \<and> scrollTop g = 0 then events g @ [Prepend 0] else events g)
   \<and> (scrollTop g \<noteq> 0 \<longrightarrow> doubleCheckTick g = g)
   \<and> (doubleCheck (timer g) \<and> scrollTop g = 0 \<and> doubleCheckCount (timer g) = int (Suc n) \<longrightarrow>
        \<not> doubleCheck (timer (ticks (Suc n) g))
        \<and> events (ticks (Suc n) g) = events g @ replicate (Suc n) (Prepend 0)
        \<and> ticks m (ticks (Suc n) g) = ticks (Suc n) g)"
  using postLayout_starts_loop [of L g r a opts] postLayout_budget [of g L r a opts] tick_events [of g] tick_off_top [of g]
    ticks_budget [of g n] ticks_disarmed [of "ticks (Suc n) g" m]
  by blast

theorem C9_double_check_loop_witness:
  "\<not> doubleCheck (timer (ticks 3 polling_grid))
   \<and> events (ticks 3 polling_grid) = events polling_grid @ [Prepend 0, Prepend 0, Prepend 0]
   \<and> ticks 5 (ticks 3 polling_grid) = ticks 3 polling_grid"
proof -
  have h: "doubleCheck (timer polling_grid) \<and> scrollTop polling_grid = 0
           \<and> doubleCheckCount (timer polling_grid) = int (Suc 2)"
    by code_simp
  have n: "Suc 2 = 3" by simp
  from C9_double_check_loop [of example_collaborators polling_grid False None
         default_layout_options 2 5] h
  show ?thesis by (simp add: n numeral_3_eq_3)
qed

text \<open>The loop does not stop when the offset moves away from the top: a firing at
  offset 5 leaves it running, and once the offset is 0 again it emits a prepend.\<close>

theorem C9_loop_survives_counterexample:
  "doubleCheck (timer polling_grid)
   \<and> doubleCheck (timer (doubleCheckTick (polling_grid\<lparr>viewScrollTop := 5\<rparr>)))
   \<and> events (doubleCheckTick ((doubleCheckTick (polling_grid\<lparr>viewScrollTop := 5\<rparr>))\<lparr>viewScrollTop := 0\<rparr>))
       = events polling_grid @ [Prepend 0]"
  by code_simp
subsection \<open>The tag filter of an insertion\<close>

text \<open>
  C10. The filter of \<open>_prepareElement\<close> tests whether the tag name contains DIV, SPAN
  or LI: a LINK element, whose tag name is none of the three, passes it and is counted
  in the value \<open>append\<close> returns.
\<close>

theorem C10_link_element_counted:
  "tagName (mk_elem 1 ''LINK'') \<noteq> ''DIV'' \<and> tagName (mk_elem 1 ''LINK'') \<noteq> ''SPAN''
   \<and> tagName (mk_elem 1 ''LINK'') \<noteq> ''LI''
   \<and> returned_count (append_els example_collaborators empty_grid [mk_elem 1 ''LINK''] None) = Some 1
   \<and> returned_count (append_els example_collaborators empty_grid [mk_elem 1 ''IMG''] None) = Some 0"
  by code_simp

text \<open>A batch without any card element returns 0, yet the flag is set and a layout
  cycle is scheduled; when it completes, layoutComplete is emitted with no target.\<close>

lemma insert_without_cards_runs_cycle:
  "returned_count (append_els example_collaborators empty_grid [mk_elem 1 ''IMG''] None) = Some 0
   \<and> map_option isProcessing
        (resulting_grid (append_els example_collaborators empty_grid [mk_elem 1 ''IMG''] None))
      = Some True
   \<and> map_option (\<lambda>g. events (runCallback example_collaborators g 0))
        (resulting_grid (append_els example_collaborators empty_grid [mk_elem 1 ''IMG''] None))
      = Some [LayoutComplete \<lparr>target = [], payload_isAppend = True, distance = 0, croppedCount = 0\<rparr>]"
  by code_simp

subsection \<open>Eviction and group integrity\<close>

lemma adjustRange_negative_index:
  assumes "getDelimiterIndex L (layoutManager g) isTop (overflow g isTop elements0) < 0"
  shows "adjustRange L g isTop elements0
           = Inr (if isRecycling g then fst (trimElements (count (options g)) isTop elements0) else 0,
                  if isRecycling g then snd (trimElements (count (options g)) isTop elements0)
                  else elements0,
                  g)"
  using assms
  by (auto simp: adjustRange_def overflow_def Let_def split: prod.splits)

lemma adjustRange_window:
  "layoutManager (range_after (adjustRange L g isTop elements0)) = layoutManager g
   \<or> (\<exists>idx. 0 \<le> idx
         \<and> idx = getDelimiterIndex L (layoutManager g) isTop (overflow g isTop elements0)
         \<and> layoutManager (range_after (adjustRange L g isTop elements0))
             = snd (adjustItems L (layoutManager g) isTop idx))"
  by (auto simp: adjustRange_def range_after_def overflow_def Let_def
        split: prod.splits option.splits)

lemma layout_layoutManager: "layoutManager (layout g r a opts) = layoutManager g"
  by (simp add: layout_def Let_def)

lemma prepareElement_layoutManager:
  "layoutManager (snd (prepareElement g es)) = layoutManager g"
  by (simp add: prepareElement_def Let_def)

lemma insert_els_window:
  "layoutManager (grid_after (insert_els L g paramElements gk a)) = layoutManager g
   \<or> (\<exists>idx. 0 \<le> idx
         \<and> layoutManager (grid_after (insert_els L g paramElements gk a))
             = snd (adjustItems L (layoutManager g) a idx))"
proof (cases "isProcessing g \<or> length paramElements = 0")
  case True
  then show ?thesis by (simp add: insert_els_def grid_after_def)
next
  case False
  define g1 where "g1 = snd (prepareElement g paramElements)"
  define es' where "es' = map (\<lambda>v. v\<lparr>style_position := ''absolute'',
                       style_top := Some (- clientHeight (status g1))\<rparr>)
                     (fst (prepareElement g paramElements))"
  have lm1: "layoutManager g1 = layoutManager g"
    unfolding g1_def by (rule prepareElement_layoutManager)
  have eq: "insert_els L g paramElements gk a =
        (case adjustRange L g1 a es' of
           Inl e \<Rightarrow> Inl e
         | Inr (removed, cloneElements, g2) \<Rightarrow>
             Inr (length cloneElements,
                  layout (g2\<lparr>childNodes :=
                     (if a then snd (toFragment cloneElements [] (childNodes g2))
                               @ fst (toFragment cloneElements [] (childNodes g2))
                      else fst (toFragment cloneElements [] (childNodes g2))
                               @ snd (toFragment cloneElements [] (childNodes g2)))\<rparr>)
                    False (Some (itemize L cloneElements gk))
                    \<lparr>isAppend = a, removedCount = removed\<rparr>))"
    using False
    by (simp add: insert_els_def g1_def es'_def Let_def case_prod_beta split: sum.splits)
  have same: "layoutManager (grid_after (insert_els L g paramElements gk a))
                = layoutManager (range_after (adjustRange L g1 a es'))"
  proof (cases "adjustRange L g1 a es'")
    case (Inl x)
    obtain e g2 where x: "x = (e, g2)" by (cases x) auto
    show ?thesis unfolding eq Inl x by (simp add: grid_after_def range_after_def)
  next
    case (Inr x)
    obtain r ce g2 where x: "x = (r, ce, g2)" by (cases x) auto
    show ?thesis unfolding eq Inr x
      by (simp add: grid_after_def range_after_def layout_layoutManager)
  qed
  from adjustRange_window [of L g1 a es'] show ?thesis unfolding same lm1 by blast
qed

lemma splits_group_iff:
  "splits_group xs i \<longleftrightarrow>
     (\<exists>k. k \<in> groupKey ` set (take i xs) \<and> k \<in> groupKey ` set (drop i xs))"
proof
  assume "splits_group xs i"
  then obtain x y where x: "x \<in> set (take i xs)" and y: "y \<in> set (drop i xs)"
    and eq: "groupKey y = groupKey x"
    unfolding splits_group_def list_ex_iff by blast
  have a: "groupKey x \<in> groupKey ` set (take i xs)" using x by (rule imageI)
  have "groupKey y \<in> groupKey ` set (drop i xs)" using y by (rule imageI)
  then have b: "groupKey x \<in> groupKey ` set (drop i xs)" unfolding eq .
  from a b show "\<exists>k. k \<in> groupKey ` set (take i xs) \<and> k \<in> groupKey ` set (drop i xs)"
    by blast
next
  assume "\<exists>k. k \<in> groupKey ` set (take i xs) \<and> k \<in> groupKey ` set (drop i xs)"
  then obtain k where k1: "k \<in> groupKey ` set (take i xs)" and k2: "k \<in> groupKey ` set (drop i xs)"
    by blast
  from k1 obtain x where x: "x \<in> set (take i xs)" and kx: "k = groupKey x" by (rule imageE)
  from k2 obtain y where y: "y \<in> set (drop i xs)" and ky: "k = groupKey y" by (rule imageE)
  have "groupKey y = groupKey x" using kx ky by simp
  with y have "\<exists>y\<in>set (drop i xs). groupKey y = groupKey x" by (rule bexI [rotated])
  with x have "\<exists>x\<in>set (take i xs). \<exists>y\<in>set (drop i xs). groupKey y = groupKey x"
    by (rule bexI [rotated])
  then show "splits_group xs i"
    unfolding splits_group_def list_ex_iff .
qed

lemma group_of_take_drop:
  "group_of k xs = group_of k (take i xs) @ group_of k (drop i xs)"
  unfolding group_of_def by (metis append_take_drop_id filter_append)

lemma group_of_empty: "group_of k xs = [] \<longleftrightarrow> k \<notin> groupKey ` set xs"
  unfolding group_of_def by (auto simp: filter_empty_conv)

lemma respecting_cut_keeps_groups:
  assumes "\<not> splits_group xs i"
  shows "(group_of k (drop i xs) = group_of k xs \<or> group_of k (drop i xs) = [])
         \<and> (group_of k (take i xs) = group_of k xs \<or> group_of k (take i xs) = [])"
proof -
  have "k \<notin> groupKey ` set (take i xs) \<or> k \<notin> groupKey ` set (drop i xs)"
    using assms unfolding splits_group_iff by blast
  then have "group_of k (take i xs) = [] \<or> group_of k (drop i xs) = []"
    unfolding group_of_empty .
  then show ?thesis using group_of_take_drop [of k xs i] by auto
qed

lemma no_split_at_ends: "\<not> splits_group xs 0" "\<not> splits_group xs (length xs)"
  by (simp_all add: splits_group_iff)

lemma extend_cut_respects: "\<not> splits_group xs (extend_cut xs isTop i)"
proof (cases isTop)
  case True
  show ?thesis
  proof (cases "filter (\<lambda>j. \<not> splits_group xs j) [i ..< length xs]")
    case Nil
    then show ?thesis using True by (simp add: extend_cut_def no_split_at_ends)
  next
    case (Cons j rest)
    then have "j \<in> set (filter (\<lambda>j. \<not> splits_group xs j) [i ..< length xs])" by simp
    then have "\<not> splits_group xs j" by simp
    then show ?thesis using True Cons by (simp add: extend_cut_def)
  qed
next
  case False
  show ?thesis
  proof (cases "rev (filter (\<lambda>j. \<not> splits_group xs j) [0 ..< Suc (min i (length xs))])")
    case Nil
    then show ?thesis using False by (simp add: extend_cut_def no_split_at_ends)
  next
    case (Cons j rest)
    then have "j \<in> set (rev (filter (\<lambda>j. \<not> splits_group xs j) [0 ..< Suc (min i (length xs))]))"
      by simp
    then have "j \<in> set (filter (\<lambda>j. \<not> splits_group xs j) [0 ..< Suc (min i (length xs))])"
      unfolding set_rev .
    then have "\<not> splits_group xs j" unfolding set_filter by blast
    then show ?thesis using False Cons by (simp add: extend_cut_def)
  qed
qed

lemma LM_adjustItems_integrity:
  "group_of k (items (snd (LM_adjustItems lm isTop idx))) = group_of k (items lm)
   \<or> group_of k (items (snd (LM_adjustItems lm isTop idx))) = []"
  using respecting_cut_keeps_groups [OF extend_cut_respects [of "items lm" isTop "nat idx"], of k]
  by (cases isTop) (simp_all add: LM_adjustItems_def Let_def)

text \<open>
  C1. In every insertion, when \<open>getDelimiterIndex\<close> returns a negative index
  \<open>_adjustRange\<close> evicts nothing: the instance, and so the window, is left as it was,
  over capacity, and the removed count reports only supplied elements that were
  trimmed. With the window manager of the specification, whatever index is handed to
  \<open>adjustItems\<close>, after the insertion (whether it returns or raises) every group key
  present before is either present with all its items or absent.
\<close>

theorem C1_eviction_keeps_groups:
  "(getDelimiterIndex L (layoutManager g) isTop (overflow g isTop elements0) < 0 \<longrightarrow>
      adjustRange L g isTop elements0
        = Inr (if isRecycling g then fst (trimElements (count (options g)) isTop elements0) else 0,
               if isRecycling g then snd (trimElements (count (options g)) isTop elements0)
               else elements0,
               g))
   \<and> (adjustItems L = LM_adjustItems \<longrightarrow>
          group_of k (items (layoutManager (grid_after (insert_els L g paramElements gk isTop))))
            = group_of k (items (layoutManager g))
          \<or> group_of k (items (layoutManager (grid_after (insert_els L g paramElements gk isTop))))
            = [])"
proof (intro conjI impI)
  assume "getDelimiterIndex L (layoutManager g) isTop (overflow g isTop elements0) < 0"
  then show "adjustRange L g isTop elements0
        = Inr (if isRecycling g then fst (trimElements (count (options g)) isTop elements0) else 0,
               if isRecycling g then snd (trimElements (count (options g)) isTop elements0)
               else elements0,
               g)"
    by (rule adjustRange_negative_index)
next
  assume ai: "adjustItems L = LM_adjustItems"
  from insert_els_window [of L g paramElements gk isTop]
  show "group_of k (items (layoutManager (grid_after (insert_els L g paramElements gk isTop))))
            = group_of k (items (layoutManager g))
          \<or> group_of k (items (layoutManager (grid_after (insert_els L g paramElements gk isTop))))
            = []"
  proof
    assume "layoutManager (grid_after (insert_els L g paramElements gk isTop)) = layoutManager g"
    then show ?thesis by simp
  next
    assume "\<exists>idx. 0 \<le> idx
         \<and> layoutManager (grid_after (insert_els L g paramElements gk isTop))
             = snd (adjustItems L (layoutManager g) isTop idx)"
    then obtain idx where
      lm: "layoutManager (grid_after (insert_els L g paramElements gk isTop))
             = snd (LM_adjustItems (layoutManager g) isTop idx)"
      unfolding ai by blast
    from LM_adjustItems_integrity [of k "layoutManager g" isTop idx] show ?thesis
      unfolding lm .
  qed
qed

theorem C1_eviction_keeps_groups_witness:
  "adjustRange example_collaborators single_group_grid True [mk_elem 4 ''DIV'']
     = Inr (0, [mk_elem 4 ''DIV''], single_group_grid)
   \<and> (group_of (Some 1)
         (items (layoutManager (grid_after
            (insert_els example_collaborators scenario_A_grid
               [mk_elem 5 ''DIV'', mk_elem 6 ''DIV''] (Some 3) True))))
        = group_of (Some 1) (items (layoutManager scenario_A_grid))
      \<or> group_of (Some 1)
         (items (layoutManager (grid_after
            (insert_els example_collaborators scenario_A_grid
               [mk_elem 5 ''DIV'', mk_elem 6 ''DIV''] (Some 3) True)))) = [])"
proof -
  have h1: "getDelimiterIndex example_collaborators (layoutManager single_group_grid) True
              (overflow single_group_grid True [mk_elem 4 ''DIV'']) < 0"
    by code_simp
  have h2: "adjustItems example_collaborators = LM_adjustItems"
    by (simp add: example_collaborators_def)
  have r: "isRecycling single_group_grid" by code_simp
  have t: "trimElements (count (options single_group_grid)) True [mk_elem 4 ''DIV'']
             = (0, [mk_elem 4 ''DIV''])"
    by code_simp
  note a = C1_eviction_keeps_groups [THEN conjunct1, THEN mp, OF h1]
  note b = C1_eviction_keeps_groups [THEN conjunct2, THEN mp, OF h2]
  have a': "adjustRange example_collaborators single_group_grid True [mk_elem 4 ''DIV'']
              = Inr (0, [mk_elem 4 ''DIV''], single_group_grid)"
    using a by (simp add: r t)
  show ?thesis by (rule conjI [OF a' b])
qed

text \<open>Scenario A: appending group 3 to the full window evicts group 1 whole, and the
  cycle reports two cropped items.\<close>

lemma scenario_A_eviction:
  "map_option (\<lambda>g. map groupKey (items (layoutManager g)))
     (resulting_grid (append_els example_collaborators scenario_A_grid
        [mk_elem 5 ''DIV'', mk_elem 6 ''DIV''] (Some 3)))
   = Some [Some 2, Some 2]
   \<and> map_option (\<lambda>g. map (removedCount \<circ> p_options) (pending g))
     (resulting_grid (append_els example_collaborators scenario_A_grid
        [mk_elem 5 ''DIV'', mk_elem 6 ''DIV''] (Some 3)))
   = Some [2]"
  by code_simp

text \<open>With the group key 1 used for two batches that are not adjacent, no cut of the
  window respects the groups: the index is negative, nothing is evicted and the window
  is left over capacity.\<close>

lemma reused_key_no_eviction:
  "LM_getDelimiterIndex (layoutManager reused_key_grid) True 1 = - 1
   \<and> map_option (\<lambda>g. map groupKey (items (layoutManager g)))
       (resulting_grid (append_els example_collaborators reused_key_grid [mk_elem 4 ''DIV''] (Some 3)))
     = Some [Some 1, Some 2, Some 1]"
  by code_simp

text \<open>The index of the window manager, when it is not negative, is a cut that splits
  no group; it is negative only when every admissible cut splits one.\<close>

lemma LM_getDelimiterIndex_respects:
  assumes "0 \<le> LM_getDelimiterIndex lm isTop d"
  shows "\<not> splits_group (items lm) (nat (LM_getDelimiterIndex lm isTop d))"
proof (cases isTop)
  case True
  then obtain i rest where
    f: "filter (\<lambda>i. \<not> splits_group (items lm) i) [nat d ..< length (items lm)] = i # rest"
    and r: "LM_getDelimiterIndex lm isTop d = int i"
    using assms by (auto simp: LM_getDelimiterIndex_def Let_def split: list.splits)
  have "i \<in> set (filter (\<lambda>i. \<not> splits_group (items lm) i) [nat d ..< length (items lm)])"
    unfolding f by simp
  then have "\<not> splits_group (items lm) i" unfolding set_filter by blast
  then show ?thesis unfolding r by simp
next
  case False
  then obtain i rest where
    f: "rev (filter (\<lambda>i. \<not> splits_group (items lm) i) [1 ..< Suc (length (items lm) - nat d)])
          = i # rest"
    and r: "LM_getDelimiterIndex lm isTop d = int i"
    using assms by (auto simp: LM_getDelimiterIndex_def Let_def split: list.splits)
  have "i \<in> set (rev (filter (\<lambda>i. \<not> splits_group (items lm) i)
                          [1 ..< Suc (length (items lm) - nat d)]))"
    unfolding f by simp
  then have "i \<in> set (filter (\<lambda>i. \<not> splits_group (items lm) i)
                          [1 ..< Suc (length (items lm) - nat d)])"
    unfolding set_rev .
  then have "\<not> splits_group (items lm) i" unfolding set_filter by blast
  then show ?thesis unfolding r by simp
qed

lemma LM_getDelimiterIndex_negative:
  assumes "LM_getDelimiterIndex lm True d < 0" and "nat d \<le> i" and "i < length (items lm)"
  shows "splits_group (items lm) i"
proof -
  have "filter (\<lambda>i. \<not> splits_group (items lm) i) [nat d ..< length (items lm)] = []"
    using assms(1) by (auto simp: LM_getDelimiterIndex_def Let_def split: list.splits)
  then have "\<forall>j \<in> set [nat d ..< length (items lm)]. splits_group (items lm) j"
    unfolding filter_empty_conv by simp
  moreover have "i \<in> set [nat d ..< length (items lm)]" using assms(2,3) by simp
  ultimately show ?thesis by blast
qed

subsection \<open>The distance of a prepend\<close>




text \<open>Scenario D as a run: the callback of the prepend is the completion of the cycle
  on the state before it, and it leaves the offset at 250.\<close>

lemma scenario_D_run:
  "scenario_D_after
     = onLayoutComplete (column_collaborators 50) (scenario_D_before\<lparr>pending := []\<rparr>) False
         (Some [\<lparr>el = mk_elem 2 ''DIV''\<lparr>style_position := ''absolute'', style_top := Some (- 600)\<rparr>,
                 groupKey = Some 2, position_y = 0\<rparr>])
         \<lparr>isAppend = False, removedCount = 0\<rparr>
   \<and> window_positions scenario_D_before = [(1, 0)]
   \<and> window_positions scenario_D_after = [(2, 0), (1, 50)]
   \<and> last_distance scenario_D_after = Some 50
   \<and> scrollTop scenario_D_before = 200
   \<and> scrollTop scenario_D_after = 250"
  by code_simp



subsection \<open>Snapshot round trip\<close>





text \<open>A container that holds only text has a non-empty markup, and its snapshot is
  applied.\<close>

lemma text_only_snapshot_applied:
  "childNodes (setStatus example_collaborators one_card_grid
     (Some (getStatus example_collaborators
        (empty_grid\<lparr>childNodes := [Text ''a'', Text '''', Text ''b''], style_rest := ''color: red;''\<rparr>))))
   = [Text ''ab'']
   \<and> items (layoutManager (setStatus example_collaborators one_card_grid
     (Some (getStatus example_collaborators
        (empty_grid\<lparr>childNodes := [Text ''a'', Text '''', Text ''b''], style_rest := ''color: red;''\<rparr>)))))
   = []"
  by code_simp

end
